theory Spec2Isabelle
  imports Main
begin

section \<open>Python values, type tests and exceptions\<close>

text \<open>
  A Python \<^verbatim>\<open>str\<close> is a sequence of Unicode code points, here a list of naturals.
  \<open>ord c\<close> is the code point of a character of a literal, as Python's \<^verbatim>\<open>ord\<close>, and
  \<open>ascii s\<close> is the \<^verbatim>\<open>str\<close> that the literal \<open>s\<close> denotes.
\<close>

type_synonym ustr = "nat list"

definition ord :: "char \<Rightarrow> nat" where
  "ord c = of_char c"

definition ascii :: "string \<Rightarrow> ustr" where
  "ascii s = map ord s"

text \<open>
  The functions of TkZero receive arbitrary Python objects and test their types with
  \<^verbatim>\<open>isinstance\<close> before using them. The values that can reach them are modelled by
  \<open>pyval\<close>. \<open>PWidget c\<close> is an instance of the toolkit class named \<open>c\<close>, a \<^verbatim>\<open>tk.Widget\<close>,
  \<^verbatim>\<open>tk.Tk\<close> or \<^verbatim>\<open>tk.Toplevel\<close>; \<open>PObject c\<close> is an instance of any other class, named
  \<open>c\<close> (a function, a float, ...).
\<close>

datatype pyval =
    PNone
  | PBool bool
  | PInt int
  | PStr ustr
  | PList "pyval list"
  | PTuple "pyval list"
  | PWidget ustr
  | PObject ustr

text \<open>Exceptions carry their message, as the source builds it.\<close>

datatype error =
    TypeError ustr
  | ValueError ustr
  | IndexError ustr
  | TclError ustr

text \<open>\<^verbatim>\<open>isinstance(v, (tk.Widget, tk.Tk, tk.Toplevel))\<close>\<close>

fun is_widget :: "pyval \<Rightarrow> bool" where
  "is_widget (PWidget c) = True"
| "is_widget v = False"

text \<open>\<^verbatim>\<open>isinstance(v, bool)\<close>\<close>

fun is_bool :: "pyval \<Rightarrow> bool" where
  "is_bool (PBool b) = True"
| "is_bool v = False"

text \<open>\<^verbatim>\<open>isinstance(v, int)\<close>: \<^verbatim>\<open>bool\<close> is a subclass of \<^verbatim>\<open>int\<close>.\<close>

fun is_int :: "pyval \<Rightarrow> bool" where
  "is_int (PInt i) = True"
| "is_int (PBool b) = True"
| "is_int v = False"

text \<open>\<^verbatim>\<open>isinstance(v, str)\<close>, \<^verbatim>\<open>isinstance(v, list)\<close>, \<^verbatim>\<open>isinstance(v, tuple)\<close>\<close>

fun is_str :: "pyval \<Rightarrow> bool" where
  "is_str (PStr s) = True"
| "is_str v = False"

fun is_list :: "pyval \<Rightarrow> bool" where
  "is_list (PList xs) = True"
| "is_list v = False"

fun is_tuple :: "pyval \<Rightarrow> bool" where
  "is_tuple (PTuple xs) = True"
| "is_tuple v = False"

text \<open>The value of an object that passed a type test.\<close>

fun the_bool :: "pyval \<Rightarrow> bool" where
  "the_bool (PBool b) = b"
| "the_bool v = False"

fun the_int :: "pyval \<Rightarrow> int" where
  "the_int (PInt i) = i"
| "the_int (PBool b) = (if b then 1 else 0)"
| "the_int v = 0"

fun the_str :: "pyval \<Rightarrow> ustr" where
  "the_str (PStr s) = s"
| "the_str v = []"

fun the_items :: "pyval \<Rightarrow> pyval list" where
  "the_items (PList xs) = xs"
| "the_items (PTuple xs) = xs"
| "the_items v = []"

text \<open>\<^verbatim>\<open>repr(type(v))\<close>, for instance \<^verbatim>\<open><class 'int'>\<close>\<close>

fun class_name :: "pyval \<Rightarrow> ustr" where
  "class_name PNone = ascii ''NoneType''"
| "class_name (PBool b) = ascii ''bool''"
| "class_name (PInt i) = ascii ''int''"
| "class_name (PStr s) = ascii ''str''"
| "class_name (PList xs) = ascii ''list''"
| "class_name (PTuple xs) = ascii ''tuple''"
| "class_name (PWidget c) = c"
| "class_name (PObject c) = c"

definition type_repr :: "pyval \<Rightarrow> ustr" where
  "type_repr v = ascii ''<class '' @ [ord CHR 0x27] @ class_name v @ [ord CHR 0x27] @ ascii ''>''"

subsection \<open>String operations\<close>

text \<open>
  \<^verbatim>\<open>s[0]\<close> is the string of the first character of \<open>s\<close>, or an IndexError on the
  empty string.
\<close>

fun str_first :: "ustr \<Rightarrow> error + ustr" where
  "str_first [] = Inl (IndexError (ascii ''string index out of range''))"
| "str_first (c # cs) = Inr [c]"

text \<open>
  \<^verbatim>\<open>s.upper()\<close> and \<^verbatim>\<open>s.lower()\<close>, which the source calls on the one-character string
  \<^verbatim>\<open>letter[0]\<close>. An ASCII letter changes case and any other ASCII character stays. A
  code point beyond ASCII maps as Python's Unicode tables say; these are the parameter
  \<open>uc\<close>: \<open>to_upper uc c\<close> is \<^verbatim>\<open>chr(c).upper()\<close> and \<open>to_lower uc c\<close> is
  \<^verbatim>\<open>chr(c).lower()\<close>, each a string that may be longer than one character.
\<close>

record unicode =
  to_upper :: "nat \<Rightarrow> ustr"
  to_lower :: "nat \<Rightarrow> ustr"

definition upper_char :: "unicode \<Rightarrow> nat \<Rightarrow> ustr" where
  "upper_char uc c =
    (if ord CHR ''a'' \<le> c \<and> c \<le> ord CHR ''z'' then [c - 32]
     else if c < 128 then [c]
     else to_upper uc c)"

definition lower_char :: "unicode \<Rightarrow> nat \<Rightarrow> ustr" where
  "lower_char uc c =
    (if ord CHR ''A'' \<le> c \<and> c \<le> ord CHR ''Z'' then [c + 32]
     else if c < 128 then [c]
     else to_lower uc c)"

definition upper :: "unicode \<Rightarrow> ustr \<Rightarrow> ustr" where
  "upper uc s = concat (map (upper_char uc) s)"

definition lower :: "unicode \<Rightarrow> ustr \<Rightarrow> ustr" where
  "lower uc s = concat (map (lower_char uc) s)"

text \<open>
  Python's case mapping of the code points from U+0080 to U+00FF, to run the functions
  on; a code point from U+0100 on is kept.
\<close>

definition latin1 :: unicode where
  "latin1 =
    \<lparr>to_upper = (\<lambda>c.
        if c = 223 then ascii ''SS''
        else if c = 181 then [924]
        else if c = 255 then [376]
        else if 224 \<le> c \<and> c \<le> 254 \<and> c \<noteq> 247 then [c - 32]
        else [c]),
     to_lower = (\<lambda>c.
        if 192 \<le> c \<and> c \<le> 222 \<and> c \<noteq> 215 then [c + 32]
        else [c])\<rparr>"

text \<open>\<^verbatim>\<open>sub in s\<close>: \<open>sub\<close> occurs in \<open>s\<close> as a contiguous piece.\<close>

fun str_in :: "ustr \<Rightarrow> ustr \<Rightarrow> bool" where
  "str_in sub [] = (sub = [])"
| "str_in sub (c # cs) = (take (length sub) (c # cs) = sub \<or> str_in sub cs)"

text \<open>\<^verbatim>\<open>s.replace(old, new)\<close> for one-character \<open>old\<close> and \<open>new\<close>.\<close>

definition replace_char :: "nat \<Rightarrow> nat \<Rightarrow> ustr \<Rightarrow> ustr" where
  "replace_char old new s = map (\<lambda>c. if c = old then new else c) s"

section \<open>Keybind: event and accelerator sequences\<close>

text \<open>
  \<^verbatim>\<open>Platform.on_aqua\<close> is a function of another module, which asks the toolkit for the
  windowing system of the widget; both functions take it as their first argument
  \<open>on_aqua\<close>, a test on the widget. Their second argument is \<open>uc\<close>, the Unicode tables
  behind \<^verbatim>\<open>upper\<close> and \<^verbatim>\<open>lower\<close>.
\<close>

definition generate_event_sequence ::
  "(pyval \<Rightarrow> bool) \<Rightarrow> unicode \<Rightarrow> pyval \<Rightarrow> pyval \<Rightarrow> pyval \<Rightarrow> pyval \<Rightarrow> pyval \<Rightarrow> pyval
    \<Rightarrow> error + ustr" where
  "generate_event_sequence on_aqua uc widget ctrl_cmd ctrl_ctrl shift_shift alt_option letter =
    (if \<not> is_widget widget then
       Inl (TypeError (ascii ''widget is not a Union[tk.Widget, Union[tk.Tk, tk.Toplevel]]! ''
                       @ ascii ''(type passed in: '' @ type_repr widget @ ascii '')''))
     else if \<not> is_bool ctrl_cmd then
       Inl (TypeError (ascii ''ctrl_cmd is not a bool! (type passed in: '' @ type_repr ctrl_cmd
                       @ ascii '')''))
     else if \<not> is_bool ctrl_ctrl then
       Inl (TypeError (ascii ''ctrl_ctrl is not a bool! '' @ ascii ''(type passed in: ''
                       @ type_repr ctrl_ctrl @ ascii '')''))
     else if \<not> is_bool shift_shift then
       Inl (TypeError (ascii ''shift_shift is not a bool! ''
                       @ ascii ''(type passed in: '' @ type_repr shift_shift @ ascii '')''))
     else if \<not> is_bool alt_option then
       Inl (TypeError (ascii ''alt_option is not a bool! '' @ ascii ''(type passed in: ''
                       @ type_repr alt_option @ ascii '')''))
     else if \<not> is_str letter then
       Inl (TypeError (ascii ''letter is not a str! (type passed in: '' @ type_repr letter
                       @ ascii '')''))
     else
       let sequence = ascii ''<'';
           sequence =
             (if on_aqua widget then
                let sequence = (if the_bool ctrl_cmd then sequence @ ascii ''Command-'' else sequence);
                    sequence = (if the_bool alt_option then sequence @ ascii ''Option-'' else sequence)
                in sequence
              else
                let sequence = (if the_bool ctrl_cmd then sequence @ ascii ''Control-'' else sequence);
                    sequence = (if the_bool alt_option then sequence @ ascii ''Alt-'' else sequence)
                in sequence);
           sequence = (if the_bool ctrl_ctrl \<and> \<not> str_in (ascii ''Control-'') sequence
                       then sequence @ ascii ''Control-'' else sequence);
           sequence = (if the_bool shift_shift then sequence @ ascii ''Shift-'' else sequence)
       in case str_first (the_str letter) of
            Inl e \<Rightarrow> Inl e
          | Inr letter0 \<Rightarrow>
              let sequence = sequence @ (if the_bool shift_shift then upper uc letter0
                                         else lower uc letter0);
                  sequence = sequence @ ascii ''>''
              in Inr sequence)"

definition generate_accelerator_sequence ::
  "(pyval \<Rightarrow> bool) \<Rightarrow> unicode \<Rightarrow> pyval \<Rightarrow> pyval \<Rightarrow> pyval \<Rightarrow> pyval \<Rightarrow> pyval \<Rightarrow> pyval
    \<Rightarrow> error + ustr" where
  "generate_accelerator_sequence on_aqua uc widget ctrl_cmd ctrl_ctrl shift_shift alt_option letter =
    (if \<not> is_widget widget then
       Inl (TypeError (ascii ''widget is not a Union[tk.Widget, Union[tk.Tk, tk.Toplevel]]! ''
                       @ ascii ''(type passed in: '' @ type_repr widget @ ascii '')''))
     else if \<not> is_bool ctrl_cmd then
       Inl (TypeError (ascii ''ctrl_cmd is not a bool! (type passed in: '' @ type_repr ctrl_cmd
                       @ ascii '')''))
     else if \<not> is_bool ctrl_ctrl then
       Inl (TypeError (ascii ''ctrl_ctrl is not a bool! '' @ ascii ''(type passed in: ''
                       @ type_repr ctrl_ctrl @ ascii '')''))
     else if \<not> is_bool shift_shift then
       Inl (TypeError (ascii ''shift_shift is not a bool! ''
                       @ ascii ''(type passed in: '' @ type_repr shift_shift @ ascii '')''))
     else if \<not> is_bool alt_option then
       Inl (TypeError (ascii ''alt_option is not a bool! '' @ ascii ''(type passed in: ''
                       @ type_repr alt_option @ ascii '')''))
     else if \<not> is_str letter then
       Inl (TypeError (ascii ''letter is not a str! (type passed in: '' @ type_repr letter
                       @ ascii '')''))
     else
       let sequence = [];
           sequence = (if the_bool ctrl_cmd
                       then sequence @ (if on_aqua widget then ascii ''Command-'' else ascii ''Control-'')
                       else sequence)
       in if the_bool ctrl_ctrl \<and> str_in (ascii ''Control-'') sequence then
            Inl (ValueError (ascii ''ctrl_cmd and ctrl_ctrl is True and ''
                             @ ascii ''we are not on Aqua!''))
          else
            let sequence = (if the_bool ctrl_ctrl then sequence @ ascii ''Control-'' else sequence);
                sequence = (if the_bool shift_shift then sequence @ ascii ''Shift-'' else sequence);
                sequence = (if the_bool alt_option
                            then sequence @ (if on_aqua widget then ascii ''Option-'' else ascii ''Alt-'')
                            else sequence)
            in case str_first (the_str letter) of
                 Inl e \<Rightarrow> Inl e
               | Inr letter0 \<Rightarrow>
                   let sequence = sequence @ upper uc letter0;
                       sequence = (if \<not> on_aqua widget
                                   then replace_char (ord CHR ''-'') (ord CHR ''+'') sequence
                                   else sequence)
                   in Inr sequence)"

text \<open>The platform test on an Aqua system, and on any other windowing system.\<close>

definition aqua_platform :: "pyval \<Rightarrow> bool" where
  "aqua_platform widget = True"

definition x11_platform :: "pyval \<Rightarrow> bool" where
  "x11_platform widget = False"

text \<open>Two widgets to call the functions with.\<close>

definition tk_root :: pyval where
  "tk_root = PWidget (ascii ''tkinter.Tk'')"

definition tk_button :: pyval where
  "tk_button = PWidget (ascii ''tkinter.Button'')"

section \<open>Listbox\<close>

text \<open>
  A \<^verbatim>\<open>Listbox\<close> is a \<^verbatim>\<open>tk.Listbox\<close> with two attributes of its own, \<^verbatim>\<open>_values\<close> and
  \<^verbatim>\<open>_enabled\<close>. Its methods validate their arguments and call the toolkit. The toolkit
  and Python's built-in \<^verbatim>\<open>str\<close> are not TkZero's: the methods take them as an
  environment \<open>env\<close>, over a type \<open>'w\<close> of toolkit widget states (the widget together with
  the \<^verbatim>\<open>StringVar\<close> of its items). A toolkit command that is given unvalidated values may
  raise; the others return the new widget state.
\<close>

record 'w env =
  py_str :: "pyval \<Rightarrow> ustr"
    \<comment> \<open>\<^verbatim>\<open>str(item)\<close>\<close>
  tk_Listbox :: "pyval \<Rightarrow> pyval \<Rightarrow> pyval \<Rightarrow> ustr list \<Rightarrow> pyval \<Rightarrow> error + 'w"
    \<comment> \<open>\<^verbatim>\<open>tk.Listbox.__init__(master, height, width, listvariable, selectmode)\<close>,
       the list variable holding the given items\<close>
  tk_bind :: "ustr \<Rightarrow> pyval \<Rightarrow> 'w \<Rightarrow> 'w"
    \<comment> \<open>\<^verbatim>\<open>bind(sequence, lambda event: callback())\<close>\<close>
  tk_selection_clear :: "'w \<Rightarrow> 'w"
    \<comment> \<open>\<^verbatim>\<open>selection_clear(0, tk.END)\<close>\<close>
  tk_selection_set :: "pyval \<Rightarrow> 'w \<Rightarrow> error + 'w"
    \<comment> \<open>\<^verbatim>\<open>selection_set(index)\<close>\<close>
  tk_curselection :: "'w \<Rightarrow> int list"
    \<comment> \<open>\<^verbatim>\<open>curselection()\<close>\<close>
  tk_variable_set :: "ustr list \<Rightarrow> 'w \<Rightarrow> 'w"
    \<comment> \<open>\<^verbatim>\<open>self._variable.set(items)\<close>\<close>
  tk_see :: "pyval \<Rightarrow> 'w \<Rightarrow> 'w"
    \<comment> \<open>\<^verbatim>\<open>see(index=index)\<close>\<close>
  tk_config_state :: "ustr \<Rightarrow> 'w \<Rightarrow> 'w"
    \<comment> \<open>\<^verbatim>\<open>config(state=state)\<close>\<close>

record 'w listbox =
  lb_values :: "ustr list"
  lb_enabled :: bool
  lb_widget :: 'w

text \<open>
  A method returns \<open>Inl e\<close> when it raises \<open>e\<close> and \<open>Inr lb\<close>, the object after the
  call, when it returns. Every TypeError below is raised before anything is assigned or
  sent to the toolkit.

  \<^verbatim>\<open>Listbox.__init__(self, parent, values, select_mode, height, width, on_select,
  on_double_click)\<close>
\<close>

definition Listbox_init ::
  "'w env \<Rightarrow> pyval \<Rightarrow> pyval \<Rightarrow> pyval \<Rightarrow> pyval \<Rightarrow> pyval \<Rightarrow> pyval \<Rightarrow> pyval \<Rightarrow> error + 'w listbox" where
  "Listbox_init env parent values_arg select_mode height width on_select on_double_click =
    (if \<not> is_widget parent then
       Inl (TypeError (ascii ''parent is not a '' @ ascii ''Union[tk.Widget, Union[tk.Tk, tk.Toplevel]]! ''
                       @ ascii ''(type passed in: '' @ type_repr parent @ ascii '')''))
     else if \<not> is_list values_arg \<and> values_arg \<noteq> PNone then
       Inl (TypeError (ascii ''values is not a list! '' @ ascii ''(type passed in: ''
                       @ type_repr values_arg @ ascii '')''))
     else if \<not> is_str select_mode then
       Inl (TypeError (ascii ''select_mode is not a str! '' @ ascii ''(type passed in: ''
                       @ type_repr values_arg @ ascii '')''))
     else if \<not> is_int height \<and> height \<noteq> PNone then
       Inl (TypeError (ascii ''height is not a int! (type passed in: '' @ type_repr height
                       @ ascii '')''))
     else if \<not> is_int width \<and> height \<noteq> PNone then
       Inl (TypeError (ascii ''width is not a int! (type passed in: '' @ type_repr width
                       @ ascii '')''))
     else
       let vals = (if values_arg \<noteq> PNone then map (py_str env) (the_items values_arg) else [])
       in case tk_Listbox env parent height width vals select_mode of
            Inl e \<Rightarrow> Inl e
          | Inr w \<Rightarrow>
              let w = (if on_select \<noteq> PNone
                       then tk_bind env (ascii ''<<ListboxSelect>>'') on_select w else w);
                  w = (if on_double_click \<noteq> PNone
                       then tk_bind env (ascii ''<<Double-1>>'') on_double_click w else w)
              in Inr \<lparr>lb_values = vals, lb_enabled = True, lb_widget = w\<rparr>)"

text \<open>The property \<^verbatim>\<open>selected\<close> and its setter.\<close>

definition Listbox_selected :: "'w env \<Rightarrow> 'w listbox \<Rightarrow> int list" where
  "Listbox_selected env lb = tk_curselection env (lb_widget lb)"

text \<open>\<^verbatim>\<open>for index in new_selection: self.selection_set(index)\<close>\<close>

fun select_each :: "'w env \<Rightarrow> pyval list \<Rightarrow> 'w \<Rightarrow> error + 'w" where
  "select_each env [] w = Inr w"
| "select_each env (index # rest) w =
     (case tk_selection_set env index w of
        Inl e \<Rightarrow> Inl e
      | Inr w' \<Rightarrow> select_each env rest w')"

definition Listbox_set_selected :: "'w env \<Rightarrow> 'w listbox \<Rightarrow> pyval \<Rightarrow> error + 'w listbox" where
  "Listbox_set_selected env lb new_selection =
    (if \<not> is_tuple new_selection then
       Inl (TypeError (ascii ''new_selection is not a tuple! ''
                       @ ascii '' (type passed in: '' @ type_repr new_selection @ ascii '')''))
     else
       case select_each env (the_items new_selection) (tk_selection_clear env (lb_widget lb)) of
         Inl e \<Rightarrow> Inl e
       | Inr w \<Rightarrow> Inr (lb\<lparr>lb_widget := w\<rparr>))"

text \<open>The property \<^verbatim>\<open>values\<close> and its setter.\<close>

definition Listbox_values :: "'w listbox \<Rightarrow> ustr list" where
  "Listbox_values lb = lb_values lb"

definition Listbox_set_values :: "'w env \<Rightarrow> 'w listbox \<Rightarrow> pyval \<Rightarrow> error + 'w listbox" where
  "Listbox_set_values env lb new_values =
    (if \<not> is_list new_values then
       Inl (TypeError (ascii ''new_values is not a list! ''
                       @ ascii ''(type passed in: '' @ type_repr new_values @ ascii '')''))
     else
       let vals = map (py_str env) (the_items new_values)
       in Inr (lb\<lparr>lb_values := vals, lb_widget := tk_variable_set env vals (lb_widget lb)\<rparr>))"

text \<open>\<^verbatim>\<open>Listbox.scroll_to(self, index)\<close>\<close>

definition Listbox_scroll_to :: "'w env \<Rightarrow> 'w listbox \<Rightarrow> pyval \<Rightarrow> error + 'w listbox" where
  "Listbox_scroll_to env lb index =
    (if \<not> is_int index then
       Inl (TypeError (ascii ''index is not a int! (type passed in: '' @ type_repr index
                       @ ascii '')''))
     else if the_int index < int (length (lb_values lb)) then
       Inl (IndexError (ascii ''index is out of range! ''
                        @ ascii ''(index passed in: '' @ py_str env index @ ascii '' ''
                        @ ascii ''length of items: ''
                        @ py_str env (PInt (int (length (lb_values lb))))))
     else
       Inr (lb\<lparr>lb_widget := tk_see env index (lb_widget lb)\<rparr>))"

text \<open>
  The property \<^verbatim>\<open>enabled\<close> and its setter; \<^verbatim>\<open>tk.NORMAL\<close> is \<^verbatim>\<open>"normal"\<close> and
  \<^verbatim>\<open>tk.DISABLED\<close> is \<^verbatim>\<open>"disabled"\<close>.
\<close>

definition Listbox_enabled :: "'w listbox \<Rightarrow> bool" where
  "Listbox_enabled lb = lb_enabled lb"

definition Listbox_set_enabled :: "'w env \<Rightarrow> 'w listbox \<Rightarrow> pyval \<Rightarrow> error + 'w listbox" where
  "Listbox_set_enabled env lb new_state =
    (if \<not> is_bool new_state then
       Inl (TypeError (ascii ''new_state is not a bool! ''
                       @ ascii ''(type passed in: '' @ type_repr new_state @ ascii '')''))
     else
       let lb = lb\<lparr>lb_enabled := the_bool new_state\<rparr>
       in Inr (lb\<lparr>lb_widget :=
                    tk_config_state env (if lb_enabled lb then ascii ''normal'' else ascii ''disabled'')
                      (lb_widget lb)\<rparr>))"

subsection \<open>The toolkit\<close>

text \<open>
  The list box of Tk, in as far as the methods above reach it. A widget has its items
  (the list variable), its selection in ascending order, its state option and the other
  commands it was sent. As the Tk manual has it for \<^verbatim>\<open>-state\<close>, the selection of a
  disabled list box cannot be modified: there \<^verbatim>\<open>selection clear\<close> and \<^verbatim>\<open>selection set\<close>
  do nothing. In the normal state \<^verbatim>\<open>selection set\<close> selects an element that exists.
  An index is an integer here; Tk's symbolic indices are left out and refused like any
  other value. The constructor wants integers for the height and the width that it is
  given. The toolkit comes with a function \<open>str\<close> for Python's \<^verbatim>\<open>str\<close>; \<open>str_of\<close> is
  \<^verbatim>\<open>str\<close> on \<^verbatim>\<open>None\<close>, booleans, integers and strings, and \<open>tk_env\<close> the toolkit with it.
\<close>

fun digits :: "nat \<Rightarrow> ustr" where
  "digits n = (if n < 10 then [ord CHR ''0'' + n]
               else digits (n div 10) @ [ord CHR ''0'' + n mod 10])"

fun str_of :: "pyval \<Rightarrow> ustr" where
  "str_of PNone = ascii ''None''"
| "str_of (PBool b) = (if b then ascii ''True'' else ascii ''False'')"
| "str_of (PInt i) = (if i < 0 then ascii ''-'' @ digits (nat (- i)) else digits (nat i))"
| "str_of (PStr s) = s"
| "str_of v = ascii ''<'' @ class_name v @ ascii '' object>''"

record tk_widget =
  tw_items :: "ustr list"
  tw_selection :: "int list"
  tw_state :: ustr
  tw_commands :: "ustr list"

definition tk_toolkit :: "(pyval \<Rightarrow> ustr) \<Rightarrow> tk_widget env" where
  "tk_toolkit str =
    \<lparr>py_str = str,
     tk_Listbox = (\<lambda>master height width items selectmode.
        if (is_int height \<or> height = PNone) \<and> (is_int width \<or> width = PNone)
        then Inr \<lparr>tw_items = items, tw_selection = [], tw_state = ascii ''normal'',
                  tw_commands = []\<rparr>
        else Inl (TclError (ascii ''expected integer''))),
     tk_bind = (\<lambda>sequence callback w.
        w\<lparr>tw_commands := tw_commands w @ [ascii ''bind '' @ sequence]\<rparr>),
     tk_selection_clear = (\<lambda>w.
        if tw_state w = ascii ''disabled'' then w else w\<lparr>tw_selection := []\<rparr>),
     tk_selection_set = (\<lambda>index w.
        if \<not> is_int index then Inl (TclError (ascii ''bad listbox index''))
        else if tw_state w = ascii ''disabled'' then Inr w
        else if 0 \<le> the_int index \<and> the_int index < int (length (tw_items w))
        then Inr (w\<lparr>tw_selection :=
                       insort (the_int index) (removeAll (the_int index) (tw_selection w))\<rparr>)
        else Inr w),
     tk_curselection = tw_selection,
     tk_variable_set = (\<lambda>items w.
        w\<lparr>tw_items := items,
          tw_selection := filter (\<lambda>i. i < int (length items)) (tw_selection w)\<rparr>),
     tk_see = (\<lambda>index w. w\<lparr>tw_commands := tw_commands w @ [ascii ''see '' @ str_of index]\<rparr>),
     tk_config_state = (\<lambda>state w. w\<lparr>tw_state := state\<rparr>)\<rparr>"

definition tk_env :: "tk_widget env" where
  "tk_env = tk_toolkit str_of"

text \<open>
  What the constructor establishes and every method keeps: the toolkit's items are
  \<^verbatim>\<open>_values\<close>, and its state option is \<^verbatim>\<open>_enabled\<close>.
\<close>

definition mirrored :: "tk_widget listbox \<Rightarrow> bool" where
  "mirrored lb =
    (tw_items (lb_widget lb) = lb_values lb
     \<and> tw_state (lb_widget lb) = (if lb_enabled lb then ascii ''normal'' else ascii ''disabled''))"

text \<open>
  The list box of the items a, b, c, d, as the constructor makes it, and as it is after
  \<^verbatim>\<open>enabled = False\<close>.
\<close>

definition abcd_listbox :: "tk_widget listbox" where
  "abcd_listbox =
    \<lparr>lb_values = [ascii ''a'', ascii ''b'', ascii ''c'', ascii ''d''],
     lb_enabled = True,
     lb_widget = \<lparr>tw_items = [ascii ''a'', ascii ''b'', ascii ''c'', ascii ''d''],
                   tw_selection = [], tw_state = ascii ''normal'', tw_commands = []\<rparr>\<rparr>"

definition abcd_disabled :: "tk_widget listbox" where
  "abcd_disabled =
    \<lparr>lb_values = [ascii ''a'', ascii ''b'', ascii ''c'', ascii ''d''],
     lb_enabled = False,
     lb_widget = \<lparr>tw_items = [ascii ''a'', ascii ''b'', ascii ''c'', ascii ''d''],
                   tw_selection = [], tw_state = ascii ''disabled'', tw_commands = []\<rparr>\<rparr>"

section \<open>Properties of the key sequences\<close>

lemma is_bool_iff: "is_bool v \<longleftrightarrow> (\<exists>b. v = PBool b)"
  by (cases v) simp_all

lemma is_str_iff: "is_str v \<longleftrightarrow> (\<exists>s. v = PStr s)"
  by (cases v) simp_all

lemma ascii_append: "ascii (s @ t) = ascii s @ ascii t"
  by (simp add: ascii_def)

lemma upper_one: "upper uc [c] = upper_char uc c"
  by (simp add: upper_def)

lemma lower_one: "lower uc [c] = lower_char uc c"
  by (simp add: lower_def)

text \<open>Both functions in closed form, on arguments of the right types.\<close>

lemma event_typed:
  "is_widget w \<Longrightarrow>
   generate_event_sequence on_aqua uc w (PBool cc) (PBool ct) (PBool sh) (PBool al) (PStr (c # rest)) =
     Inr (ascii ''<''
          @ (if cc then (if on_aqua w then ascii ''Command-'' else ascii ''Control-'') else [])
          @ (if al then (if on_aqua w then ascii ''Option-'' else ascii ''Alt-'') else [])
          @ (if ct \<and> (on_aqua w \<or> \<not> cc) then ascii ''Control-'' else [])
          @ (if sh then ascii ''Shift-'' else [])
          @ (if sh then upper uc [c] else lower uc [c])
          @ ascii ''>'')"
  by (simp add: generate_event_sequence_def ascii_def ord_def)

lemma event_empty:
  "is_widget w \<Longrightarrow>
   generate_event_sequence on_aqua uc w (PBool cc) (PBool ct) (PBool sh) (PBool al) (PStr []) =
     Inl (IndexError (ascii ''string index out of range''))"
  by (simp add: generate_event_sequence_def)

lemma accel_typed:
  "is_widget w \<Longrightarrow>
   generate_accelerator_sequence on_aqua uc w (PBool cc) (PBool ct) (PBool sh) (PBool al)
     (PStr (c # rest)) =
     (if cc \<and> ct \<and> \<not> on_aqua w
      then Inl (ValueError (ascii ''ctrl_cmd and ctrl_ctrl is True and we are not on Aqua!''))
      else if on_aqua w
      then Inr ((if cc then ascii ''Command-'' else []) @ (if ct then ascii ''Control-'' else [])
                @ (if sh then ascii ''Shift-'' else []) @ (if al then ascii ''Option-'' else [])
                @ upper uc [c])
      else Inr ((if cc then ascii ''Control+'' else []) @ (if ct then ascii ''Control+'' else [])
                @ (if sh then ascii ''Shift+'' else []) @ (if al then ascii ''Alt+'' else [])
                @ replace_char (ord CHR ''-'') (ord CHR ''+'') (upper uc [c])))"
  by (simp add: generate_accelerator_sequence_def replace_char_def ascii_def ord_def)

lemma accel_empty:
  "is_widget w \<Longrightarrow>
   generate_accelerator_sequence on_aqua uc w (PBool cc) (PBool ct) (PBool sh) (PBool al) (PStr []) =
     (if cc \<and> ct \<and> \<not> on_aqua w
      then Inl (ValueError (ascii ''ctrl_cmd and ctrl_ctrl is True and we are not on Aqua!''))
      else Inl (IndexError (ascii ''string index out of range'')))"
  by (simp add: generate_accelerator_sequence_def ascii_def ord_def)

text \<open>A call that returns had a widget, four booleans and a non-empty string.\<close>

lemma event_returns_typed:
  assumes "generate_event_sequence on_aqua uc w cc ct sh al l = Inr s"
  shows "is_widget w \<and>
    (\<exists>a b c d x xs. cc = PBool a \<and> ct = PBool b \<and> sh = PBool c \<and> al = PBool d \<and> l = PStr (x # xs))"
proof -
  have 1: "is_widget w"
  proof (rule ccontr)
    assume "\<not> is_widget w"
    with assms show False by (simp add: generate_event_sequence_def)
  qed
  have 2: "is_bool cc"
  proof (rule ccontr)
    assume "\<not> is_bool cc"
    with assms 1 show False by (simp add: generate_event_sequence_def)
  qed
  have 3: "is_bool ct"
  proof (rule ccontr)
    assume "\<not> is_bool ct"
    with assms 1 2 show False by (simp add: generate_event_sequence_def)
  qed
  have 4: "is_bool sh"
  proof (rule ccontr)
    assume "\<not> is_bool sh"
    with assms 1 2 3 show False by (simp add: generate_event_sequence_def)
  qed
  have 5: "is_bool al"
  proof (rule ccontr)
    assume "\<not> is_bool al"
    with assms 1 2 3 4 show False by (simp add: generate_event_sequence_def)
  qed
  have 6: "is_str l"
  proof (rule ccontr)
    assume "\<not> is_str l"
    with assms 1 2 3 4 5 show False by (simp add: generate_event_sequence_def)
  qed
  from 2 3 4 5 6 obtain a b c d t where
    eqs: "cc = PBool a" "ct = PBool b" "sh = PBool c" "al = PBool d" "l = PStr t"
    unfolding is_bool_iff is_str_iff by blast
  have "t \<noteq> []"
  proof
    assume "t = []"
    with assms eqs event_empty [OF 1, of on_aqua uc a b c d] show False by simp
  qed
  then obtain x xs where "t = x # xs" by (cases t) auto
  with 1 eqs show ?thesis by blast
qed

lemma accel_returns_typed:
  assumes "generate_accelerator_sequence on_aqua uc w cc ct sh al l = Inr s"
  shows "is_widget w \<and>
    (\<exists>a b c d x xs. cc = PBool a \<and> ct = PBool b \<and> sh = PBool c \<and> al = PBool d \<and> l = PStr (x # xs))"
proof -
  have 1: "is_widget w"
  proof (rule ccontr)
    assume "\<not> is_widget w"
    with assms show False by (simp add: generate_accelerator_sequence_def)
  qed
  have 2: "is_bool cc"
  proof (rule ccontr)
    assume "\<not> is_bool cc"
    with assms 1 show False by (simp add: generate_accelerator_sequence_def)
  qed
  have 3: "is_bool ct"
  proof (rule ccontr)
    assume "\<not> is_bool ct"
    with assms 1 2 show False by (simp add: generate_accelerator_sequence_def)
  qed
  have 4: "is_bool sh"
  proof (rule ccontr)
    assume "\<not> is_bool sh"
    with assms 1 2 3 show False by (simp add: generate_accelerator_sequence_def)
  qed
  have 5: "is_bool al"
  proof (rule ccontr)
    assume "\<not> is_bool al"
    with assms 1 2 3 4 show False by (simp add: generate_accelerator_sequence_def)
  qed
  have 6: "is_str l"
  proof (rule ccontr)
    assume "\<not> is_str l"
    with assms 1 2 3 4 5 show False by (simp add: generate_accelerator_sequence_def)
  qed
  from 2 3 4 5 6 obtain a b c d t where
    eqs: "cc = PBool a" "ct = PBool b" "sh = PBool c" "al = PBool d" "l = PStr t"
    unfolding is_bool_iff is_str_iff by blast
  have "t \<noteq> []"
  proof
    assume "t = []"
    with assms eqs accel_empty [OF 1, of on_aqua uc a b c d] show False
      by (simp split: if_splits)
  qed
  then obtain x xs where "t = x # xs" by (cases t) auto
  with 1 eqs show ?thesis by blast
qed

lemma replace_char_removes: "old \<noteq> new \<Longrightarrow> old \<notin> set (replace_char old new s)"
  by (auto simp add: replace_char_def)

text \<open>Case conversion of ASCII characters, whatever the tables for the others are.\<close>

lemma case_conversions:
  "upper uc (ascii ''s'') = ascii ''S''" "lower uc (ascii ''s'') = ascii ''s''"
  "upper uc (ascii ''q'') = ascii ''Q''" "lower uc (ascii ''Q'') = ascii ''q''"
  "upper uc (ascii ''S'') = ascii ''S''" "lower uc (ascii ''S'') = ascii ''s''"
  "upper uc (ascii ''-'') = ascii ''-''" "lower uc (ascii ''1'') = ascii ''1''"
  by (simp_all add: upper_def lower_def upper_char_def lower_char_def ascii_def ord_def)

text \<open>
  C3: with ctrl_cmd alone and the letter "s", the binding is "<Control-s>" and the
  accelerator "Control+S" off Aqua; on Aqua they are "<Command-s>" and "Command-S".
\<close>

theorem ctrl_cmd_s_example:
  assumes "is_widget w"
  shows "(\<not> on_aqua w \<longrightarrow>
            generate_event_sequence on_aqua uc w
              (PBool True) (PBool False) (PBool False) (PBool False) (PStr (ascii ''s'')) =
              Inr (ascii ''<Control-s>'')
          \<and> generate_accelerator_sequence on_aqua uc w
              (PBool True) (PBool False) (PBool False) (PBool False) (PStr (ascii ''s'')) =
              Inr (ascii ''Control+S''))
       \<and> (on_aqua w \<longrightarrow>
            generate_event_sequence on_aqua uc w
              (PBool True) (PBool False) (PBool False) (PBool False) (PStr (ascii ''s'')) =
              Inr (ascii ''<Command-s>'')
          \<and> generate_accelerator_sequence on_aqua uc w
              (PBool True) (PBool False) (PBool False) (PBool False) (PStr (ascii ''s'')) =
              Inr (ascii ''Command-S''))"
proof -
  have s: "PStr (ascii ''s'') = PStr (ord CHR ''s'' # [])"
    by (simp add: ascii_def)
  have c: "upper uc [ord CHR ''s''] = ascii ''S''" "lower uc [ord CHR ''s''] = ascii ''s''"
    using case_conversions(1,2) [of uc] by (simp_all add: ascii_def)
  show ?thesis
    unfolding s using assms
    by (simp add: event_typed accel_typed c replace_char_def) (simp add: ascii_def ord_def)
qed

theorem ctrl_cmd_s_example_witness:
  "generate_event_sequence x11_platform latin1 tk_root
     (PBool True) (PBool False) (PBool False) (PBool False) (PStr (ascii ''s'')) =
     Inr (ascii ''<Control-s>'')
   \<and> generate_accelerator_sequence x11_platform latin1 tk_root
     (PBool True) (PBool False) (PBool False) (PBool False) (PStr (ascii ''s'')) =
     Inr (ascii ''Control+S'')
   \<and> generate_event_sequence aqua_platform latin1 tk_root
     (PBool True) (PBool False) (PBool False) (PBool False) (PStr (ascii ''s'')) =
     Inr (ascii ''<Command-s>'')
   \<and> generate_accelerator_sequence aqua_platform latin1 tk_root
     (PBool True) (PBool False) (PBool False) (PBool False) (PStr (ascii ''s'')) =
     Inr (ascii ''Command-S'')"
  using ctrl_cmd_s_example [where w = tk_root and on_aqua = x11_platform and uc = latin1]
        ctrl_cmd_s_example [where w = tk_root and on_aqua = aqua_platform and uc = latin1]
  by (simp add: x11_platform_def aqua_platform_def tk_root_def)
text \<open>
  C1, as the code has it: off Aqua with ctrl_cmd and ctrl_ctrl both set,
  generate_accelerator_sequence raises a ValueError, whereas generate_event_sequence
  raises nothing and returns the sequence with one "Control-". On Aqua, or without
  ctrl_cmd, ctrl_ctrl adds the modifier "Control" to the string either function returns.
\<close>

theorem ctrl_ctrl_adds_control:
  assumes "is_widget w"
  shows "(\<not> on_aqua w \<longrightarrow>
            generate_accelerator_sequence on_aqua uc w
              (PBool True) (PBool True) (PBool sh) (PBool al) (PStr l) =
              Inl (ValueError (ascii ''ctrl_cmd and ctrl_ctrl is True and we are not on Aqua!''))
          \<and> generate_event_sequence on_aqua uc w
              (PBool True) (PBool True) (PBool sh) (PBool al) (PStr (c # rest)) =
              Inr (ascii ''<Control-'' @ (if al then ascii ''Alt-'' else [])
                   @ (if sh then ascii ''Shift-'' else [])
                   @ (if sh then upper uc [c] else lower uc [c]) @ ascii ''>''))
       \<and> (on_aqua w \<or> \<not> cc \<longrightarrow>
            generate_event_sequence on_aqua uc w
              (PBool cc) (PBool True) (PBool sh) (PBool al) (PStr (c # rest)) =
              Inr (ascii ''<'' @ (if cc then ascii ''Command-'' else [])
                   @ (if al then (if on_aqua w then ascii ''Option-'' else ascii ''Alt-'') else [])
                   @ ascii ''Control-'' @ (if sh then ascii ''Shift-'' else [])
                   @ (if sh then upper uc [c] else lower uc [c]) @ ascii ''>'')
          \<and> generate_accelerator_sequence on_aqua uc w
              (PBool cc) (PBool True) (PBool sh) (PBool al) (PStr (c # rest)) =
              Inr (if on_aqua w
                   then (if cc then ascii ''Command-'' else []) @ ascii ''Control-''
                        @ (if sh then ascii ''Shift-'' else []) @ (if al then ascii ''Option-'' else [])
                        @ upper uc [c]
                   else ascii ''Control+'' @ (if sh then ascii ''Shift+'' else [])
                        @ (if al then ascii ''Alt+'' else [])
                        @ replace_char (ord CHR ''-'') (ord CHR ''+'') (upper uc [c])))"
proof -
  have "generate_accelerator_sequence on_aqua uc w
          (PBool True) (PBool True) (PBool sh) (PBool al) (PStr l) =
          Inl (ValueError (ascii ''ctrl_cmd and ctrl_ctrl is True and we are not on Aqua!''))"
    if "\<not> on_aqua w"
    using that assms by (cases l) (simp_all add: accel_empty accel_typed)
  then show ?thesis
    using assms by (simp add: event_typed accel_typed ascii_def ord_def)
qed

theorem ctrl_ctrl_adds_control_witness:
  "generate_accelerator_sequence x11_platform latin1 tk_root
     (PBool True) (PBool True) (PBool False) (PBool False) (PStr (ascii ''s'')) =
     Inl (ValueError (ascii ''ctrl_cmd and ctrl_ctrl is True and we are not on Aqua!''))
   \<and> generate_event_sequence x11_platform latin1 tk_root
     (PBool True) (PBool True) (PBool False) (PBool False) (PStr (ascii ''s'')) =
     Inr (ascii ''<Control-s>'')
   \<and> generate_event_sequence aqua_platform latin1 tk_root
     (PBool True) (PBool True) (PBool False) (PBool False) (PStr (ascii ''s'')) =
     Inr (ascii ''<Command-Control-s>'')
   \<and> generate_accelerator_sequence aqua_platform latin1 tk_root
     (PBool True) (PBool True) (PBool False) (PBool False) (PStr (ascii ''s'')) =
     Inr (ascii ''Command-Control-S'')
   \<and> generate_event_sequence x11_platform latin1 tk_root
     (PBool False) (PBool True) (PBool False) (PBool False) (PStr (ascii ''s'')) =
     Inr (ascii ''<Control-s>'')
   \<and> generate_accelerator_sequence x11_platform latin1 tk_root
     (PBool False) (PBool True) (PBool False) (PBool False) (PStr (ascii ''s'')) =
     Inr (ascii ''Control+S'')"
proof -
  have s: "ascii ''s'' = [ord CHR ''s'']"
    by (simp add: ascii_def)
  have c: "upper latin1 [ord CHR ''s''] = ascii ''S''" "lower latin1 [ord CHR ''s''] = ascii ''s''"
    using case_conversions(1,2) [of latin1] by (simp_all add: ascii_def)
  show ?thesis
    unfolding s
    using ctrl_ctrl_adds_control [where w = tk_root and on_aqua = x11_platform and uc = latin1
            and sh = False and al = False and l = "[ord CHR ''s'']" and c = "ord CHR ''s''"
            and rest = "[]" and cc = False]
          ctrl_ctrl_adds_control [where w = tk_root and on_aqua = aqua_platform and uc = latin1
            and sh = False and al = False and l = "[ord CHR ''s'']" and c = "ord CHR ''s''"
            and rest = "[]" and cc = True]
    by (simp add: x11_platform_def aqua_platform_def tk_root_def c replace_char_def)
       (simp add: ascii_def ord_def)
qed

theorem event_sequence_redundant_control_counterexample:
  "generate_event_sequence x11_platform latin1 tk_root
     (PBool True) (PBool True) (PBool False) (PBool False) (PStr (ascii ''s'')) =
     Inr (ascii ''<Control-s>'')"
  by (simp add: generate_event_sequence_def x11_platform_def tk_root_def upper_def lower_def
        upper_char_def lower_char_def ascii_def ord_def)

text \<open>
  C5: in the string of a call that returns, ctrl_cmd stands as "Command" and alt_option
  as "Option" on Aqua, and as "Control" and "Alt" on every other platform.
\<close>

theorem modifier_names_platform_mapped:
  "(generate_event_sequence on_aqua uc w cc ct sh al l = Inr ev \<longrightarrow>
      ev = ascii ''<''
        @ (if the_bool cc then (if on_aqua w then ascii ''Command'' else ascii ''Control'') @ ascii ''-''
           else [])
        @ (if the_bool al then (if on_aqua w then ascii ''Option'' else ascii ''Alt'') @ ascii ''-''
           else [])
        @ (if the_bool ct \<and> (on_aqua w \<or> \<not> the_bool cc) then ascii ''Control-'' else [])
        @ (if the_bool sh then ascii ''Shift-'' else [])
        @ (if the_bool sh then upper uc (take 1 (the_str l)) else lower uc (take 1 (the_str l)))
        @ ascii ''>'')
   \<and> (generate_accelerator_sequence on_aqua uc w cc ct sh al l = Inr acc \<longrightarrow>
      acc = (if the_bool cc
             then (if on_aqua w then ascii ''Command'' else ascii ''Control'')
                  @ (if on_aqua w then ascii ''-'' else ascii ''+'')
             else [])
        @ (if the_bool ct then ascii ''Control'' @ (if on_aqua w then ascii ''-'' else ascii ''+'')
           else [])
        @ (if the_bool sh then ascii ''Shift'' @ (if on_aqua w then ascii ''-'' else ascii ''+'')
           else [])
        @ (if the_bool al
           then (if on_aqua w then ascii ''Option'' else ascii ''Alt'')
                @ (if on_aqua w then ascii ''-'' else ascii ''+'')
           else [])
        @ (if on_aqua w then upper uc (take 1 (the_str l))
           else replace_char (ord CHR ''-'') (ord CHR ''+'') (upper uc (take 1 (the_str l)))))"
proof (intro conjI impI)
  assume r: "generate_event_sequence on_aqua uc w cc ct sh al l = Inr ev"
  from event_returns_typed [OF r] obtain a b c d x xs where
    t: "is_widget w" "cc = PBool a" "ct = PBool b" "sh = PBool c" "al = PBool d" "l = PStr (x # xs)"
    by blast
  from r t show "ev = ascii ''<''
        @ (if the_bool cc then (if on_aqua w then ascii ''Command'' else ascii ''Control'') @ ascii ''-''
           else [])
        @ (if the_bool al then (if on_aqua w then ascii ''Option'' else ascii ''Alt'') @ ascii ''-''
           else [])
        @ (if the_bool ct \<and> (on_aqua w \<or> \<not> the_bool cc) then ascii ''Control-'' else [])
        @ (if the_bool sh then ascii ''Shift-'' else [])
        @ (if the_bool sh then upper uc (take 1 (the_str l)) else lower uc (take 1 (the_str l)))
        @ ascii ''>''"
    by (simp add: event_typed ascii_def ord_def split: if_splits)
next
  assume r: "generate_accelerator_sequence on_aqua uc w cc ct sh al l = Inr acc"
  from accel_returns_typed [OF r] obtain a b c d x xs where
    t: "is_widget w" "cc = PBool a" "ct = PBool b" "sh = PBool c" "al = PBool d" "l = PStr (x # xs)"
    by blast
  from r t show "acc = (if the_bool cc
             then (if on_aqua w then ascii ''Command'' else ascii ''Control'')
                  @ (if on_aqua w then ascii ''-'' else ascii ''+'')
             else [])
        @ (if the_bool ct then ascii ''Control'' @ (if on_aqua w then ascii ''-'' else ascii ''+'')
           else [])
        @ (if the_bool sh then ascii ''Shift'' @ (if on_aqua w then ascii ''-'' else ascii ''+'')
           else [])
        @ (if the_bool al
           then (if on_aqua w then ascii ''Option'' else ascii ''Alt'')
                @ (if on_aqua w then ascii ''-'' else ascii ''+'')
           else [])
        @ (if on_aqua w then upper uc (take 1 (the_str l))
           else replace_char (ord CHR ''-'') (ord CHR ''+'') (upper uc (take 1 (the_str l))))"
    by (simp add: accel_typed ascii_def ord_def split: if_splits)
qed
theorem modifier_names_platform_mapped_witness:
  "generate_event_sequence x11_platform latin1 tk_root
     (PBool True) (PBool False) (PBool True) (PBool True) (PStr (ascii ''q'')) =
     Inr (ascii ''<Control-Alt-Shift-Q>'')
   \<and> generate_accelerator_sequence x11_platform latin1 tk_root
     (PBool True) (PBool False) (PBool True) (PBool True) (PStr (ascii ''q'')) =
     Inr (ascii ''Control+Shift+Alt+Q'')
   \<and> generate_event_sequence aqua_platform latin1 tk_root
     (PBool True) (PBool False) (PBool True) (PBool True) (PStr (ascii ''q'')) =
     Inr (ascii ''<Command-Option-Shift-Q>'')
   \<and> generate_accelerator_sequence aqua_platform latin1 tk_root
     (PBool True) (PBool False) (PBool True) (PBool True) (PStr (ascii ''q'')) =
     Inr (ascii ''Command-Shift-Option-Q'')"
proof -
  have q: "ascii ''q'' = [ord CHR ''q'']"
    by (simp add: ascii_def)
  have w: "is_widget tk_root"
    by (simp add: tk_root_def)
  have c: "upper latin1 [ord CHR ''q''] = ascii ''Q''"
    using case_conversions(3) [of latin1] by (simp add: ascii_def)
  obtain ev where ev: "generate_event_sequence x11_platform latin1 tk_root
     (PBool True) (PBool False) (PBool True) (PBool True) (PStr (ascii ''q'')) = Inr ev"
    by (simp add: q event_typed [OF w])
  obtain acc where acc: "generate_accelerator_sequence x11_platform latin1 tk_root
     (PBool True) (PBool False) (PBool True) (PBool True) (PStr (ascii ''q'')) = Inr acc"
    by (simp add: q accel_typed [OF w] x11_platform_def)
  obtain ev' where ev': "generate_event_sequence aqua_platform latin1 tk_root
     (PBool True) (PBool False) (PBool True) (PBool True) (PStr (ascii ''q'')) = Inr ev'"
    by (simp add: q event_typed [OF w])
  obtain acc' where acc': "generate_accelerator_sequence aqua_platform latin1 tk_root
     (PBool True) (PBool False) (PBool True) (PBool True) (PStr (ascii ''q'')) = Inr acc'"
    by (simp add: q accel_typed [OF w] aqua_platform_def)
  from modifier_names_platform_mapped [of x11_platform latin1 tk_root "PBool True"
         "PBool False" "PBool True" "PBool True" "PStr (ascii ''q'')" ev acc] ev acc
  have 1: "ev = ascii ''<Control-Alt-Shift-Q>''" "acc = ascii ''Control+Shift+Alt+Q''"
    by (simp_all add: x11_platform_def q c replace_char_def) (simp_all add: ascii_def ord_def)
  from modifier_names_platform_mapped [of aqua_platform latin1 tk_root "PBool True"
         "PBool False" "PBool True" "PBool True" "PStr (ascii ''q'')" ev' acc'] ev' acc'
  have 2: "ev' = ascii ''<Command-Option-Shift-Q>''" "acc' = ascii ''Command-Shift-Option-Q''"
    by (simp_all add: aqua_platform_def q c) (simp_all add: ascii_def ord_def)
  from ev acc ev' acc' 1 2 show ?thesis by simp
qed

text \<open>
  C6: for a letter of one character or more, generate_event_sequence puts the first
  character alone as the key of the sequence, after modifiers that do not depend on the
  letter: in upper case with shift_shift, in lower case without. The case of an ASCII
  letter changes by 32, any other ASCII character stays, and a character beyond ASCII
  goes through Python's Unicode tables, which may give more than one character.
\<close>

theorem event_key_is_first_character:
  assumes "is_widget w"
  shows "\<exists>modifiers. \<forall>c rest.
           generate_event_sequence on_aqua uc w (PBool cc) (PBool ct) (PBool sh) (PBool al)
             (PStr (c # rest)) =
             Inr (ascii ''<'' @ modifiers
                  @ (if sh
                     then (if ord CHR ''a'' \<le> c \<and> c \<le> ord CHR ''z'' then [c - 32]
                           else if c < 128 then [c] else to_upper uc c)
                     else (if ord CHR ''A'' \<le> c \<and> c \<le> ord CHR ''Z'' then [c + 32]
                           else if c < 128 then [c] else to_lower uc c))
                  @ ascii ''>'')"
proof -
  let ?m = "(if cc then (if on_aqua w then ascii ''Command-'' else ascii ''Control-'') else [])
          @ (if al then (if on_aqua w then ascii ''Option-'' else ascii ''Alt-'') else [])
          @ (if ct \<and> (on_aqua w \<or> \<not> cc) then ascii ''Control-'' else [])
          @ (if sh then ascii ''Shift-'' else [])"
  have "generate_event_sequence on_aqua uc w (PBool cc) (PBool ct) (PBool sh) (PBool al)
          (PStr (c # rest)) =
          Inr (ascii ''<'' @ ?m
               @ (if sh
                  then (if ord CHR ''a'' \<le> c \<and> c \<le> ord CHR ''z'' then [c - 32]
                        else if c < 128 then [c] else to_upper uc c)
                  else (if ord CHR ''A'' \<le> c \<and> c \<le> ord CHR ''Z'' then [c + 32]
                        else if c < 128 then [c] else to_lower uc c))
               @ ascii ''>'')" for c rest
    using assms by (simp add: event_typed upper_one lower_one upper_char_def lower_char_def)
  then show ?thesis by blast
qed

theorem event_key_is_first_character_witness:
  "generate_event_sequence x11_platform latin1 tk_root
     (PBool False) (PBool False) (PBool True) (PBool False) (PStr (ascii ''save'')) =
     Inr (ascii ''<Shift-S>'')
   \<and> generate_event_sequence x11_platform latin1 tk_root
     (PBool False) (PBool False) (PBool True) (PBool False) (PStr (223 # ascii ''x'')) =
     Inr (ascii ''<Shift-SS>'')
   \<and> generate_event_sequence x11_platform latin1 tk_root
     (PBool False) (PBool False) (PBool False) (PBool False) (PStr (ascii ''Save'')) =
     Inr (ascii ''<s>'')
   \<and> generate_event_sequence x11_platform latin1 tk_root
     (PBool False) (PBool False) (PBool False) (PBool False) (PStr (ascii ''1x'')) =
     Inr (ascii ''<1>'')
   \<and> generate_event_sequence x11_platform latin1 tk_root
     (PBool False) (PBool False) (PBool False) (PBool False) (PStr [192, 224]) =
     Inr (ascii ''<'' @ [224] @ ascii ''>'')"
proof -
  have w: "is_widget tk_root"
    by (simp add: tk_root_def)
  from event_key_is_first_character [OF w, of x11_platform latin1 False False True False]
  obtain m where m: "\<And>c rest.
      generate_event_sequence x11_platform latin1 tk_root
        (PBool False) (PBool False) (PBool True) (PBool False) (PStr (c # rest)) =
        Inr (ascii ''<'' @ m
             @ (if ord CHR ''a'' \<le> c \<and> c \<le> ord CHR ''z'' then [c - 32]
                else if c < 128 then [c] else to_upper latin1 c)
             @ ascii ''>'')"
    by auto
  from event_key_is_first_character [OF w, of x11_platform latin1 False False False False]
  obtain n where n: "\<And>c rest.
      generate_event_sequence x11_platform latin1 tk_root
        (PBool False) (PBool False) (PBool False) (PBool False) (PStr (c # rest)) =
        Inr (ascii ''<'' @ n
             @ (if ord CHR ''A'' \<le> c \<and> c \<le> ord CHR ''Z'' then [c + 32]
                else if c < 128 then [c] else to_lower latin1 c)
             @ ascii ''>'')"
    by auto
  have "m = ascii ''Shift-''"
    using m [of "ord CHR ''a''" "[]"] event_typed [OF w, of x11_platform latin1 False False True False
      "ord CHR ''a''" "[]"]
    by (simp add: x11_platform_def upper_one upper_char_def ord_def)
  moreover have "n = []"
    using n [of "ord CHR ''a''" "[]"] event_typed [OF w, of x11_platform latin1 False False False False
      "ord CHR ''a''" "[]"]
    by (simp add: x11_platform_def lower_one lower_char_def ord_def)
  ultimately show ?thesis
    using m [of "ord CHR ''s''" "ascii ''ave''"] m [of 223 "ascii ''x''"]
          n [of "ord CHR ''S''" "ascii ''ave''"] n [of "ord CHR ''1''" "ascii ''x''"]
          n [of 192 "[224]"]
    by (simp add: ascii_def ord_def latin1_def)
qed

text \<open>
  C7: the accelerator of a call that returns is the modifier names, each followed by the
  separator, and then the key; the separator is "-" on Aqua and "+" elsewhere, where the
  string holds no "-" at all.
\<close>

theorem accelerator_separator:
  assumes "generate_accelerator_sequence on_aqua uc w cc ct sh al l = Inr acc"
  shows "acc =
      concat (map (\<lambda>name. name @ (if on_aqua w then ascii ''-'' else ascii ''+''))
        ((if the_bool cc then [if on_aqua w then ascii ''Command'' else ascii ''Control''] else [])
         @ (if the_bool ct then [ascii ''Control''] else [])
         @ (if the_bool sh then [ascii ''Shift''] else [])
         @ (if the_bool al then [if on_aqua w then ascii ''Option'' else ascii ''Alt''] else [])))
      @ (if on_aqua w then upper uc (take 1 (the_str l))
         else replace_char (ord CHR ''-'') (ord CHR ''+'') (upper uc (take 1 (the_str l))))
    \<and> (on_aqua w \<or> ord CHR ''-'' \<notin> set acc)"
proof -
  from accel_returns_typed [OF assms] obtain a b c d x xs where
    t: "is_widget w" "cc = PBool a" "ct = PBool b" "sh = PBool c" "al = PBool d" "l = PStr (x # xs)"
    by blast
  have k: "ord CHR ''-'' \<notin> set (replace_char (ord CHR ''-'') (ord CHR ''+'') (upper uc [x]))"
    by (rule replace_char_removes) (simp add: ord_def)
  have r: "Inr acc =
      generate_accelerator_sequence on_aqua uc w (PBool a) (PBool b) (PBool c) (PBool d)
        (PStr (x # xs))"
    using assms t by simp
  have ok: "\<not> (a \<and> b \<and> \<not> on_aqua w)"
  proof
    assume "a \<and> b \<and> \<not> on_aqua w"
    with r t show False by (simp add: accel_typed)
  qed
  show ?thesis
  proof (cases "on_aqua w")
    case True
    note r
    also from t True have "generate_accelerator_sequence on_aqua uc w
        (PBool a) (PBool b) (PBool c) (PBool d) (PStr (x # xs)) =
      Inr ((if a then ascii ''Command-'' else []) @ (if b then ascii ''Control-'' else [])
        @ (if c then ascii ''Shift-'' else []) @ (if d then ascii ''Option-'' else [])
        @ upper uc [x])"
      by (simp add: accel_typed)
    finally have "acc = (if a then ascii ''Command-'' else []) @ (if b then ascii ''Control-'' else [])
        @ (if c then ascii ''Shift-'' else []) @ (if d then ascii ''Option-'' else [])
        @ upper uc [x]"
      by (simp only: sum.inject)
    with True t show ?thesis by (simp add: ascii_def)
  next
    case False
    note r
    also from t False ok have "generate_accelerator_sequence on_aqua uc w
        (PBool a) (PBool b) (PBool c) (PBool d) (PStr (x # xs)) =
      Inr ((if a then ascii ''Control+'' else [])
        @ (if b then ascii ''Control+'' else []) @ (if c then ascii ''Shift+'' else [])
        @ (if d then ascii ''Alt+'' else [])
        @ replace_char (ord CHR ''-'') (ord CHR ''+'') (upper uc [x]))"
      by (simp add: accel_typed)
    finally have acc: "acc = (if a then ascii ''Control+'' else [])
        @ (if b then ascii ''Control+'' else []) @ (if c then ascii ''Shift+'' else [])
        @ (if d then ascii ''Alt+'' else [])
        @ replace_char (ord CHR ''-'') (ord CHR ''+'') (upper uc [x])"
      by (simp only: sum.inject)
    have "ord CHR ''-'' \<notin> set acc"
      unfolding acc using k by (simp add: ascii_def) (simp add: ord_def)
    with acc False t show ?thesis by (simp add: ascii_def)
  qed
qed

theorem accelerator_separator_witness:
  "generate_accelerator_sequence x11_platform latin1 tk_root
     (PBool False) (PBool True) (PBool True) (PBool True) (PStr (ascii ''-'')) =
     Inr (ascii ''Control+Shift+Alt++'')
   \<and> ord CHR ''-'' \<notin> set (ascii ''Control+Shift+Alt++'')
   \<and> generate_accelerator_sequence aqua_platform latin1 tk_root
     (PBool True) (PBool True) (PBool True) (PBool True) (PStr (ascii ''-'')) =
     Inr (ascii ''Command-Control-Shift-Option--'')"
proof -
  have q: "ascii ''-'' = [ord CHR ''-'']"
    by (simp add: ascii_def)
  have w: "is_widget tk_root"
    by (simp add: tk_root_def)
  have c: "upper latin1 [ord CHR ''-''] = ascii ''-''"
    using case_conversions(7) [of latin1] by (simp add: ascii_def)
  obtain acc where acc: "generate_accelerator_sequence x11_platform latin1 tk_root
     (PBool False) (PBool True) (PBool True) (PBool True) (PStr (ascii ''-'')) = Inr acc"
    by (simp add: q accel_typed [OF w] x11_platform_def)
  obtain acc' where acc': "generate_accelerator_sequence aqua_platform latin1 tk_root
     (PBool True) (PBool True) (PBool True) (PBool True) (PStr (ascii ''-'')) = Inr acc'"
    by (simp add: q accel_typed [OF w] aqua_platform_def)
  from accelerator_separator [OF acc]
  have 1: "acc = ascii ''Control+Shift+Alt++''" "ord CHR ''-'' \<notin> set acc"
    by (simp_all add: x11_platform_def q c replace_char_def) (simp_all add: ascii_def ord_def)
  from accelerator_separator [OF acc']
  have 2: "acc' = ascii ''Command-Control-Shift-Option--''"
    by (simp add: aqua_platform_def q c) (simp add: ascii_def ord_def)
  from acc acc' 1 2 show ?thesis by simp
qed

text \<open>
  C8: the result of either function is decided by the platform, the four flags and the
  letter: two calls on the same platform with the same flags and letter return the same,
  whatever widgets they are given.
\<close>

theorem sequences_depend_on_platform_flags_letter:
  assumes "is_widget w1" and "is_widget w2" and "on_aqua1 w1 = on_aqua2 w2"
  shows "generate_event_sequence on_aqua1 uc w1 cc ct sh al l =
           generate_event_sequence on_aqua2 uc w2 cc ct sh al l
       \<and> generate_accelerator_sequence on_aqua1 uc w1 cc ct sh al l =
           generate_accelerator_sequence on_aqua2 uc w2 cc ct sh al l"
  unfolding generate_event_sequence_def generate_accelerator_sequence_def
  by (simp only: assms if_False simp_thms)

theorem sequences_depend_on_platform_flags_letter_witness:
  "generate_event_sequence x11_platform latin1 tk_root
     (PBool True) (PBool False) (PBool False) (PBool True) (PStr (ascii ''s'')) =
   generate_event_sequence x11_platform latin1 tk_button
     (PBool True) (PBool False) (PBool False) (PBool True) (PStr (ascii ''s''))
   \<and> generate_accelerator_sequence x11_platform latin1 tk_root
     (PBool True) (PBool False) (PBool False) (PBool True) (PStr (ascii ''s'')) =
   generate_accelerator_sequence x11_platform latin1 tk_button
     (PBool True) (PBool False) (PBool False) (PBool True) (PStr (ascii ''s''))
   \<and> generate_event_sequence x11_platform latin1 tk_root
     (PBool True) (PBool False) (PBool False) (PBool True) (PStr (ascii ''s'')) =
     Inr (ascii ''<Control-Alt-s>'')"
proof -
  have w: "is_widget tk_root" "is_widget tk_button"
    by (simp_all add: tk_root_def tk_button_def)
  have e: "generate_event_sequence x11_platform latin1 tk_root
     (PBool True) (PBool False) (PBool False) (PBool True) (PStr (ascii ''s'')) =
     Inr (ascii ''<Control-Alt-s>'')"
    by (simp add: generate_event_sequence_def x11_platform_def tk_root_def lower_def
          lower_char_def ascii_def ord_def)
  from sequences_depend_on_platform_flags_letter [OF w, of x11_platform x11_platform latin1
          "PBool True" "PBool False" "PBool False" "PBool True" "PStr (ascii ''s'')"] e
  show ?thesis by (simp add: x11_platform_def)
qed

text \<open>
  C10, as the code has it: on the empty letter, the other arguments being of the right
  types, generate_event_sequence raises the IndexError of \<^verbatim>\<open>letter[0]\<close>, and so does
  generate_accelerator_sequence unless ctrl_cmd and ctrl_ctrl are both set off Aqua:
  there the ValueError comes first.
\<close>

theorem empty_letter_raises:
  assumes "is_widget w"
  shows "generate_event_sequence on_aqua uc w (PBool cc) (PBool ct) (PBool sh) (PBool al) (PStr []) =
           Inl (IndexError (ascii ''string index out of range''))
       \<and> generate_accelerator_sequence on_aqua uc w (PBool cc) (PBool ct) (PBool sh) (PBool al)
           (PStr []) =
           (if cc \<and> ct \<and> \<not> on_aqua w
            then Inl (ValueError (ascii ''ctrl_cmd and ctrl_ctrl is True and we are not on Aqua!''))
            else Inl (IndexError (ascii ''string index out of range'')))"
  using assms by (simp only: event_empty accel_empty simp_thms)

theorem empty_letter_raises_witness:
  "generate_event_sequence x11_platform latin1 tk_root
     (PBool True) (PBool False) (PBool False) (PBool False) (PStr []) =
     Inl (IndexError (ascii ''string index out of range''))
   \<and> generate_accelerator_sequence x11_platform latin1 tk_root
     (PBool True) (PBool False) (PBool False) (PBool False) (PStr []) =
     Inl (IndexError (ascii ''string index out of range''))"
  using empty_letter_raises [where w = tk_root and on_aqua = x11_platform and uc = latin1
          and cc = True and ct = False and sh = False and al = False]
  by (simp add: tk_root_def)

theorem empty_letter_accelerator_counterexample:
  "generate_accelerator_sequence x11_platform latin1 tk_root
     (PBool True) (PBool True) (PBool False) (PBool False) (PStr []) =
     Inl (ValueError (ascii ''ctrl_cmd and ctrl_ctrl is True and we are not on Aqua!''))"
  by (simp add: accel_empty x11_platform_def tk_root_def)
section \<open>Properties of the list box\<close>

lemma tk_toolkit_simps:
  "py_str (tk_toolkit str) = str"
  "tk_curselection (tk_toolkit str) w = tw_selection w"
  "tk_selection_clear (tk_toolkit str) w =
     (if tw_state w = ascii ''disabled'' then w else w\<lparr>tw_selection := []\<rparr>)"
  "tk_selection_set (tk_toolkit str) (PInt i) w =
     (if tw_state w = ascii ''disabled'' then Inr w
      else if 0 \<le> i \<and> i < int (length (tw_items w))
      then Inr (w\<lparr>tw_selection := insort i (removeAll i (tw_selection w))\<rparr>)
      else Inr w)"
  "tk_variable_set (tk_toolkit str) items w =
     w\<lparr>tw_items := items, tw_selection := filter (\<lambda>i. i < int (length items)) (tw_selection w)\<rparr>"
  "tk_config_state (tk_toolkit str) state w = w\<lparr>tw_state := state\<rparr>"
  "tk_see (tk_toolkit str) index w = w\<lparr>tw_commands := tw_commands w @ [ascii ''see '' @ str_of index]\<rparr>"
  by (simp_all add: tk_toolkit_def)

lemma normal_not_disabled: "ascii ''normal'' \<noteq> ascii ''disabled''"
  by (simp add: ascii_def ord_def)

lemma abcd_listbox_init:
  "Listbox_init tk_env tk_root
     (PList [PStr (ascii ''a''), PStr (ascii ''b''), PStr (ascii ''c''), PStr (ascii ''d'')])
     (PStr (ascii ''browse'')) PNone PNone PNone PNone = Inr abcd_listbox"
  by (simp add: Listbox_init_def tk_env_def tk_toolkit_def tk_root_def abcd_listbox_def Let_def)

text \<open>
  C9: for an integer index, scroll_to raises IndexError exactly when the index is below
  the number of values, so for every index in range; from the number of values on it
  raises nothing and hands the index to the toolkit's \<^verbatim>\<open>see\<close>.
\<close>

theorem scroll_to_raises_below_length:
  assumes "is_int index"
  shows "(the_int index < int (length (lb_values lb)) \<longrightarrow>
            (\<exists>msg. Listbox_scroll_to env lb index = Inl (IndexError msg)))
       \<and> (int (length (lb_values lb)) \<le> the_int index \<longrightarrow>
            Listbox_scroll_to env lb index = Inr (lb\<lparr>lb_widget := tk_see env index (lb_widget lb)\<rparr>))"
  using assms by (simp add: Listbox_scroll_to_def)

theorem scroll_to_raises_below_length_witness:
  "Listbox_scroll_to tk_env abcd_listbox (PInt 1) =
     Inl (IndexError (ascii ''index is out of range! (index passed in: 1 length of items: 4''))
   \<and> Listbox_scroll_to tk_env abcd_listbox (PInt 4) =
     Inr (abcd_listbox\<lparr>lb_widget :=
            \<lparr>tw_items = [ascii ''a'', ascii ''b'', ascii ''c'', ascii ''d''], tw_selection = [],
             tw_state = ascii ''normal'', tw_commands = [ascii ''see 4'']\<rparr>\<rparr>)"
  using scroll_to_raises_below_length [of "PInt 1" abcd_listbox tk_env]
        scroll_to_raises_below_length [of "PInt 4" abcd_listbox tk_env]
  by (simp add: Listbox_scroll_to_def abcd_listbox_def tk_env_def tk_toolkit_def ascii_def ord_def)

text \<open>
  The loop of the selected setter, for a toolkit that keeps its contract on the states
  \<open>ok\<close>: \<^verbatim>\<open>selection_set\<close> of an index below \<open>n\<close> adds that index to the selection.
\<close>

lemma select_each_adds:
  assumes select: "\<And>w i. ok w \<Longrightarrow> 0 \<le> i \<Longrightarrow> i < n \<Longrightarrow>
      \<exists>w'. tk_selection_set env (PInt i) w = Inr w' \<and> ok w'
        \<and> set (tk_curselection env w') = insert i (set (tk_curselection env w))"
  shows "ok w \<Longrightarrow> \<forall>i \<in> set indices. 0 \<le> i \<and> i < n \<Longrightarrow>
    \<exists>w'. select_each env (map PInt indices) w = Inr w' \<and> ok w'
      \<and> set (tk_curselection env w') = set indices \<union> set (tk_curselection env w)"
proof (induction indices arbitrary: w)
  case Nil
  then show ?case by simp
next
  case (Cons i rest)
  from Cons.prems have "0 \<le> i" "i < n" by simp_all
  with select [of w i] Cons.prems(1) obtain w1 where
    w1: "tk_selection_set env (PInt i) w = Inr w1" "ok w1"
        "set (tk_curselection env w1) = insert i (set (tk_curselection env w))"
    by blast
  from Cons.prems have "\<forall>j \<in> set rest. 0 \<le> j \<and> j < n" by simp
  with Cons.IH [of w1] w1(2) obtain w' where
    w': "select_each env (map PInt rest) w1 = Inr w'" "ok w'"
        "set (tk_curselection env w') = set rest \<union> set (tk_curselection env w1)"
    by blast
  from w1 w' show ?case by auto
qed

text \<open>The loop changes neither the items nor the state of the toolkit's widget.\<close>

lemma select_each_keeps:
  "select_each (tk_toolkit str) indices w = Inr w' \<Longrightarrow>
   tw_items w' = tw_items w \<and> tw_state w' = tw_state w"
proof (induction indices arbitrary: w)
  case Nil
  then show ?case by simp
next
  case (Cons index rest)
  from Cons.prems obtain w1 where
    w1: "tk_selection_set (tk_toolkit str) index w = Inr w1"
    and r: "select_each (tk_toolkit str) rest w1 = Inr w'"
    by (auto split: sum.splits)
  from w1 have "tw_items w1 = tw_items w \<and> tw_state w1 = tw_state w"
    by (auto simp add: tk_toolkit_def split: if_splits)
  with Cons.IH [OF r] show ?case by simp
qed

text \<open>On a disabled widget the loop does nothing.\<close>

lemma select_each_disabled:
  "tw_state w = ascii ''disabled'' \<Longrightarrow> select_each (tk_toolkit str) (map PInt indices) w = Inr w"
  by (induction indices) (simp_all add: tk_toolkit_simps)

text \<open>The constructor establishes \<open>mirrored\<close>, and every method keeps it.\<close>

lemma mirrored_init:
  assumes "Listbox_init (tk_toolkit str) parent vs mode h wd on_sel on_dbl = Inr lb"
  shows "mirrored lb \<and> lb_enabled lb"
proof -
  let ?vals = "if vs \<noteq> PNone then map str (the_items vs) else []"
  from assms obtain w where
    w: "tk_Listbox (tk_toolkit str) parent h wd ?vals mode = Inr w"
    and lb: "lb = \<lparr>lb_values = ?vals, lb_enabled = True,
           lb_widget = (let w = (if on_sel \<noteq> PNone
                                 then tk_bind (tk_toolkit str) (ascii ''<<ListboxSelect>>'') on_sel w
                                 else w);
                            w = (if on_dbl \<noteq> PNone
                                 then tk_bind (tk_toolkit str) (ascii ''<<Double-1>>'') on_dbl w
                                 else w)
                        in w)\<rparr>"
    by (simp add: Listbox_init_def tk_toolkit_simps Let_def split: if_splits sum.splits)
  from w have "tw_items w = ?vals" "tw_state w = ascii ''normal''"
    by (auto simp add: tk_toolkit_def split: if_splits)
  with lb show ?thesis
    by (simp add: mirrored_def tk_toolkit_def Let_def)
qed

lemma mirrored_set_values:
  "mirrored lb \<Longrightarrow> Listbox_set_values (tk_toolkit str) lb v = Inr lb' \<Longrightarrow> mirrored lb'"
  by (auto simp add: Listbox_set_values_def mirrored_def tk_toolkit_simps Let_def split: if_splits)

lemma mirrored_set_enabled:
  "mirrored lb \<Longrightarrow> Listbox_set_enabled (tk_toolkit str) lb v = Inr lb' \<Longrightarrow> mirrored lb'"
  by (auto simp add: Listbox_set_enabled_def mirrored_def tk_toolkit_simps Let_def split: if_splits)

lemma mirrored_scroll_to:
  "mirrored lb \<Longrightarrow> Listbox_scroll_to (tk_toolkit str) lb v = Inr lb' \<Longrightarrow> mirrored lb'"
  by (auto simp add: Listbox_scroll_to_def mirrored_def tk_toolkit_simps split: if_splits)

lemma mirrored_set_selected:
  assumes "mirrored lb" and "Listbox_set_selected (tk_toolkit str) lb v = Inr lb'"
  shows "mirrored lb'"
proof -
  from assms(2) obtain w where
    w: "select_each (tk_toolkit str) (the_items v)
          (tk_selection_clear (tk_toolkit str) (lb_widget lb)) = Inr w"
    and lb': "lb' = lb\<lparr>lb_widget := w\<rparr>"
    by (auto simp add: Listbox_set_selected_def split: if_splits sum.splits)
  from select_each_keeps [OF w] have "tw_items w = tw_items (lb_widget lb)"
    "tw_state w = tw_state (lb_widget lb)"
    by (simp_all add: tk_toolkit_simps)
  with assms(1) lb' show ?thesis by (simp add: mirrored_def)
qed
text \<open>
  C4, as the code and the toolkit have it: assigning a list to values and reading values
  back gives the list with \<^verbatim>\<open>str\<close> applied to every element. Assigning a tuple of valid
  indices to selected and reading selected back gives the same set of indices when the
  list box is enabled; the list box is one that the toolkit mirrors, as the constructor
  and the methods leave it.
\<close>

theorem setters_round_trip:
  assumes "mirrored lb" and "lb_enabled lb"
    and valid: "\<forall>i \<in> set indices. 0 \<le> i \<and> i < int (length (lb_values lb))"
  shows "(\<exists>lb'. Listbox_set_values env lb0 (PList new_values) = Inr lb'
            \<and> Listbox_values lb' = map (py_str env) new_values)
       \<and> (\<exists>lb'. Listbox_set_selected (tk_toolkit str) lb (PTuple (map PInt indices)) = Inr lb'
            \<and> set (Listbox_selected (tk_toolkit str) lb') = set indices)"
proof
  show "\<exists>lb'. Listbox_set_values env lb0 (PList new_values) = Inr lb'
          \<and> Listbox_values lb' = map (py_str env) new_values"
    by (simp add: Listbox_set_values_def Listbox_values_def Let_def)
next
  let ?tk = "tk_toolkit str"
  let ?ok = "\<lambda>w. tw_state w = ascii ''normal'' \<and> tw_items w = lb_values lb"
  let ?w0 = "tk_selection_clear ?tk (lb_widget lb)"
  from assms(1,2) have w: "?ok (lb_widget lb)"
    by (simp add: mirrored_def)
  then have w0: "?ok ?w0" "tk_curselection ?tk ?w0 = []"
    by (simp_all add: tk_toolkit_simps normal_not_disabled)
  have select: "\<exists>w'. tk_selection_set ?tk (PInt i) w = Inr w' \<and> ?ok w'
      \<and> set (tk_curselection ?tk w') = insert i (set (tk_curselection ?tk w))"
    if "?ok w" "0 \<le> i" "i < int (length (lb_values lb))" for w i
    using that by (simp add: tk_toolkit_simps normal_not_disabled set_insort_key)
  from select_each_adds [of ?ok "int (length (lb_values lb))" ?tk ?w0 indices, OF select w0(1) valid]
  obtain w' where
    w': "select_each ?tk (map PInt indices) ?w0 = Inr w'"
        "set (tk_curselection ?tk w') = set indices \<union> set (tk_curselection ?tk ?w0)"
    by blast
  from w' w0(2) show "\<exists>lb'. Listbox_set_selected ?tk lb (PTuple (map PInt indices)) = Inr lb'
          \<and> set (Listbox_selected ?tk lb') = set indices"
    by (simp add: Listbox_set_selected_def Listbox_selected_def)
qed

theorem setters_round_trip_witness:
  "Listbox_set_values tk_env abcd_listbox (PList [PStr (ascii ''x''), PInt 12, PBool True, PNone]) =
     Inr (abcd_listbox\<lparr>lb_values := [ascii ''x'', ascii ''12'', ascii ''True'', ascii ''None''],
            lb_widget := \<lparr>tw_items = [ascii ''x'', ascii ''12'', ascii ''True'', ascii ''None''],
                           tw_selection = [], tw_state = ascii ''normal'', tw_commands = []\<rparr>\<rparr>)
   \<and> Listbox_set_selected tk_env abcd_listbox (PTuple [PInt 3, PInt 0, PInt 1]) =
     Inr (abcd_listbox\<lparr>lb_widget := \<lparr>tw_items = [ascii ''a'', ascii ''b'', ascii ''c'', ascii ''d''],
                           tw_selection = [0, 1, 3], tw_state = ascii ''normal'',
                           tw_commands = []\<rparr>\<rparr>)
   \<and> set (Listbox_selected tk_env
          (abcd_listbox\<lparr>lb_widget := \<lparr>tw_items = [ascii ''a'', ascii ''b'', ascii ''c'', ascii ''d''],
                           tw_selection = [0, 1, 3], tw_state = ascii ''normal'',
                           tw_commands = []\<rparr>\<rparr>)) = {3, 0, 1}"
proof -
  have m: "mirrored abcd_listbox" "lb_enabled abcd_listbox"
    by (simp_all add: mirrored_def abcd_listbox_def)
  have valid: "\<forall>i \<in> set [3, 0, 1]. 0 \<le> i \<and> i < int (length (lb_values abcd_listbox))"
    by (simp add: abcd_listbox_def)
  have v: "Listbox_set_values tk_env abcd_listbox
      (PList [PStr (ascii ''x''), PInt 12, PBool True, PNone]) =
     Inr (abcd_listbox\<lparr>lb_values := [ascii ''x'', ascii ''12'', ascii ''True'', ascii ''None''],
            lb_widget := \<lparr>tw_items = [ascii ''x'', ascii ''12'', ascii ''True'', ascii ''None''],
                           tw_selection = [], tw_state = ascii ''normal'', tw_commands = []\<rparr>\<rparr>)"
    by (simp add: Listbox_set_values_def abcd_listbox_def tk_env_def tk_toolkit_def Let_def
          ascii_def ord_def)
  have s: "Listbox_set_selected tk_env abcd_listbox (PTuple [PInt 3, PInt 0, PInt 1]) =
     Inr (abcd_listbox\<lparr>lb_widget := \<lparr>tw_items = [ascii ''a'', ascii ''b'', ascii ''c'', ascii ''d''],
                           tw_selection = [0, 1, 3], tw_state = ascii ''normal'',
                           tw_commands = []\<rparr>\<rparr>)"
    by (simp add: Listbox_set_selected_def abcd_listbox_def tk_env_def tk_toolkit_def
          normal_not_disabled)
  from setters_round_trip [OF m valid, of tk_env abcd_listbox
         "[PStr (ascii ''x''), PInt 12, PBool True, PNone]" str_of]
  have "\<exists>lb'. Listbox_set_selected tk_env abcd_listbox (PTuple [PInt 3, PInt 0, PInt 1]) = Inr lb'
          \<and> set (Listbox_selected tk_env lb') = set [3, 0, 1]"
    by (simp add: tk_env_def)
  with s have "set (Listbox_selected tk_env
          (abcd_listbox\<lparr>lb_widget := \<lparr>tw_items = [ascii ''a'', ascii ''b'', ascii ''c'', ascii ''d''],
                           tw_selection = [0, 1, 3], tw_state = ascii ''normal'',
                           tw_commands = []\<rparr>\<rparr>)) = {3, 0, 1}"
    by (simp only: sum.inject simp_thms ex_simps list.set)
  with v s show ?thesis by (simp only: simp_thms)
qed

text \<open>
  Without the condition the round trip fails: after \<^verbatim>\<open>enabled = False\<close> the toolkit
  leaves the selection of the widget as it is, and (0, 2) reads back as ().
\<close>

theorem disabled_selection_counterexample:
  "Listbox_set_enabled tk_env abcd_listbox (PBool False) = Inr abcd_disabled
   \<and> Listbox_set_selected tk_env abcd_disabled (PTuple [PInt 0, PInt 2]) = Inr abcd_disabled
   \<and> Listbox_selected tk_env abcd_disabled = []"
  by (simp add: Listbox_set_enabled_def Listbox_set_selected_def Listbox_selected_def
        abcd_listbox_def abcd_disabled_def tk_env_def tk_toolkit_def Let_def)

lemma disabled_selection_unchanged:
  assumes "mirrored lb" and "\<not> lb_enabled lb"
  shows "Listbox_set_selected (tk_toolkit str) lb (PTuple (map PInt indices)) = Inr lb"
proof -
  from assms have d: "tw_state (lb_widget lb) = ascii ''disabled''"
    by (simp add: mirrored_def)
  then have "tk_selection_clear (tk_toolkit str) (lb_widget lb) = lb_widget lb"
    by (simp add: tk_toolkit_simps)
  with d show ?thesis
    by (simp add: Listbox_set_selected_def select_each_disabled)
qed

text \<open>
  C2, as the code has it: the constructor validates parent, values, select_mode and
  height by type, and each of the setters values, selected and enabled validates its
  argument; the first of them that has an invalid type raises a TypeError at once, whose
  message names the parameter and, select_mode apart, the type that was passed in.
  on_select and on_double_click are not validated: they never change whether the
  constructor raises, or what.
\<close>

theorem listbox_type_validation:
  "(\<not> is_widget parent \<longrightarrow>
      Listbox_init env parent vs mode h wd on_sel on_dbl =
        Inl (TypeError (ascii ''parent is not a Union[tk.Widget, Union[tk.Tk, tk.Toplevel]]! ''
                        @ ascii ''(type passed in: '' @ type_repr parent @ ascii '')'')))
   \<and> (is_widget parent \<and> \<not> is_list vs \<and> vs \<noteq> PNone \<longrightarrow>
      Listbox_init env parent vs mode h wd on_sel on_dbl =
        Inl (TypeError (ascii ''values is not a list! (type passed in: '' @ type_repr vs
                        @ ascii '')'')))
   \<and> (is_widget parent \<and> (is_list vs \<or> vs = PNone) \<and> \<not> is_str mode \<longrightarrow>
      (\<exists>t. Listbox_init env parent vs mode h wd on_sel on_dbl =
        Inl (TypeError (ascii ''select_mode is not a str! (type passed in: '' @ t @ ascii '')''))))
   \<and> (is_widget parent \<and> (is_list vs \<or> vs = PNone) \<and> is_str mode \<and> \<not> is_int h \<and> h \<noteq> PNone \<longrightarrow>
      Listbox_init env parent vs mode h wd on_sel on_dbl =
        Inl (TypeError (ascii ''height is not a int! (type passed in: '' @ type_repr h
                        @ ascii '')'')))
   \<and> (Listbox_init env parent vs mode h wd on_sel on_dbl = Inl e \<longleftrightarrow>
      Listbox_init env parent vs mode h wd on_sel' on_dbl' = Inl e)
   \<and> (\<not> is_list v \<longrightarrow>
      Listbox_set_values env lb v =
        Inl (TypeError (ascii ''new_values is not a list! (type passed in: '' @ type_repr v
                        @ ascii '')'')))
   \<and> (\<not> is_tuple v \<longrightarrow>
      Listbox_set_selected env lb v =
        Inl (TypeError (ascii ''new_selection is not a tuple!  (type passed in: '' @ type_repr v
                        @ ascii '')'')))
   \<and> (\<not> is_bool v \<longrightarrow>
      Listbox_set_enabled env lb v =
        Inl (TypeError (ascii ''new_state is not a bool! (type passed in: '' @ type_repr v
                        @ ascii '')'')))"
proof (intro conjI impI)
  show "Listbox_init env parent vs mode h wd on_sel on_dbl = Inl e \<longleftrightarrow>
        Listbox_init env parent vs mode h wd on_sel' on_dbl' = Inl e"
    by (simp add: Listbox_init_def Let_def split: sum.split)
qed (auto simp add: Listbox_init_def Listbox_set_values_def Listbox_set_selected_def
       Listbox_set_enabled_def ascii_def)

theorem listbox_type_validation_witness:
  "Listbox_init tk_env (PInt 1) PNone (PStr (ascii ''browse'')) PNone PNone PNone PNone =
     Inl (TypeError (ascii ''parent is not a Union[tk.Widget, Union[tk.Tk, tk.Toplevel]]! ''
                     @ ascii ''(type passed in: '' @ type_repr (PInt 1) @ ascii '')''))
   \<and> Listbox_init tk_env tk_root (PStr (ascii ''ab'')) (PStr (ascii ''browse'')) PNone PNone PNone PNone =
     Inl (TypeError (ascii ''values is not a list! (type passed in: ''
                     @ type_repr (PStr (ascii ''ab'')) @ ascii '')''))
   \<and> (\<exists>t. Listbox_init tk_env tk_root PNone (PInt 3) PNone PNone PNone PNone =
     Inl (TypeError (ascii ''select_mode is not a str! (type passed in: '' @ t @ ascii '')'')))
   \<and> Listbox_init tk_env tk_root PNone (PStr (ascii ''browse'')) (PStr (ascii ''tall'')) PNone PNone PNone =
     Inl (TypeError (ascii ''height is not a int! (type passed in: ''
                     @ type_repr (PStr (ascii ''tall'')) @ ascii '')''))
   \<and> Listbox_set_values tk_env abcd_listbox (PInt 1) =
     Inl (TypeError (ascii ''new_values is not a list! (type passed in: '' @ type_repr (PInt 1)
                     @ ascii '')''))
   \<and> Listbox_set_selected tk_env abcd_listbox (PInt 1) =
     Inl (TypeError (ascii ''new_selection is not a tuple!  (type passed in: '' @ type_repr (PInt 1)
                     @ ascii '')''))
   \<and> Listbox_set_enabled tk_env abcd_listbox (PInt 1) =
     Inl (TypeError (ascii ''new_state is not a bool! (type passed in: '' @ type_repr (PInt 1)
                     @ ascii '')''))
   \<and> type_repr (PInt 1) = ascii ''<class '' @ [ord CHR 0x27] @ ascii ''int'' @ [ord CHR 0x27]
       @ ascii ''>''"
  using listbox_type_validation [where parent = "PInt 1" and env = tk_env and vs = PNone
          and mode = "PStr (ascii ''browse'')" and h = PNone and wd = PNone and on_sel = PNone
          and on_dbl = PNone and v = "PInt 1" and lb = abcd_listbox]
        listbox_type_validation [where parent = tk_root and env = tk_env
          and vs = "PStr (ascii ''ab'')" and mode = "PStr (ascii ''browse'')" and h = PNone
          and wd = PNone and on_sel = PNone and on_dbl = PNone]
        listbox_type_validation [where parent = tk_root and env = tk_env
          and vs = PNone and mode = "PInt 3" and h = PNone and wd = PNone
          and on_sel = PNone and on_dbl = PNone]
        listbox_type_validation [where parent = tk_root and env = tk_env
          and vs = PNone and mode = "PStr (ascii ''browse'')" and h = "PStr (ascii ''tall'')"
          and wd = PNone and on_sel = PNone and on_dbl = PNone]
  by (simp add: type_repr_def tk_root_def)

theorem listbox_callback_counterexample:
  "Listbox_init tk_env tk_root PNone (PStr (ascii ''browse'')) PNone PNone (PInt 5) PNone =
     Inr \<lparr>lb_values = [], lb_enabled = True,
          lb_widget = \<lparr>tw_items = [], tw_selection = [], tw_state = ascii ''normal'',
                        tw_commands = [ascii ''bind <<ListboxSelect>>'']\<rparr>\<rparr>"
  by (simp add: Listbox_init_def tk_env_def tk_toolkit_def tk_root_def Let_def ascii_def)

text \<open>
  Two places where the validation of the constructor goes its own way: the check of
  width tests \<^verbatim>\<open>height is not None\<close>, so that without a height any width reaches the
  toolkit and with a height the width \<^verbatim>\<open>None\<close> is refused; and the message for
  select_mode reports the type of values.
\<close>

lemma width_check_tests_height:
  "Listbox_init env tk_root PNone (PStr (ascii ''browse'')) PNone (PStr (ascii ''wide'')) PNone PNone =
     (case tk_Listbox env tk_root PNone (PStr (ascii ''wide'')) [] (PStr (ascii ''browse'')) of
        Inl e \<Rightarrow> Inl e
      | Inr w \<Rightarrow> Inr \<lparr>lb_values = [], lb_enabled = True, lb_widget = w\<rparr>)"
  "Listbox_init env tk_root PNone (PStr (ascii ''browse'')) (PInt 3) PNone on_sel on_dbl =
     Inl (TypeError (ascii ''width is not a int! (type passed in: '' @ type_repr PNone @ ascii '')''))"
  by (simp_all add: Listbox_init_def tk_root_def Let_def split: sum.split)

lemma select_mode_message_reports_values:
  "Listbox_init env tk_root PNone (PInt 3) h wd on_sel on_dbl =
     Inl (TypeError (ascii ''select_mode is not a str! (type passed in: '' @ type_repr PNone
                     @ ascii '')''))"
  by (simp add: Listbox_init_def tk_root_def ascii_def)
end
